theory Spec2Isabelle
  imports Complex_Main
begin

section \<open>SolarSize Nigeria: the calculation core of solar_app_prototype.py\<close>

text \<open>
  The Python source computes with machine floats. This development reads every
  arithmetic operation exactly, over the real numbers: sums, products and quotients
  are the mathematical ones, and rounding error and overflow of the floats are not
  represented. Python's integers (a quantity, a panel count, a budget) are \<open>int\<close>.
  A dictionary is an association list in insertion order, which is the order in which
  Python iterates over it.
\<close>

subsection \<open>Python primitives used by the source\<close>

datatype py_error = ZeroDivisionError

text \<open>\<open>d.get(k, default)\<close> on a dictionary.\<close>

definition dict_get :: "('k \<times> 'v) list \<Rightarrow> 'k \<Rightarrow> 'v \<Rightarrow> 'v" where
  "dict_get d k dflt = (case map_of d k of None \<Rightarrow> dflt | Some v \<Rightarrow> v)"

text \<open>True division \<open>x / y\<close>: Python raises ZeroDivisionError on a zero divisor.\<close>

definition py_truediv :: "real \<Rightarrow> real \<Rightarrow> py_error + real" where
  "py_truediv x y = (if y = 0 then Inl ZeroDivisionError else Inr (x / y))"



subsection \<open>Reference data\<close>

text \<open>An entry of \<open>st.session_state.appliances_data\<close>.\<close>

record appliance =
  power :: real
  hours :: real
  quantity :: int
  priority :: string

record panel =
  watts :: int
  price :: int
  efficiency :: int
  warranty :: int

record vendor =
  name :: string
  rating :: real
  phone :: string
  speciality :: string


definition NIGERIAN_CITIES :: "(string \<times> real) list" where
  "NIGERIAN_CITIES =
    [(''Lagos'', 4.5),
     (''Abuja'', 5.2),
     (''Kano'', 5.8),
     (''Ibadan'', 4.8),
     (''Port Harcourt'', 4.2),
     (''Kaduna'', 5.5),
     (''Benin City'', 4.4),
     (''Jos'', 5.7),
     (''Ilorin'', 5.1),
     (''Maiduguri'', 6.0)]"

definition VENDORS :: "(string \<times> vendor list) list" where
  "VENDORS =
    [(''Lagos'',
       [\<lparr>name = ''SolarMax Nigeria'', rating = 4.5, phone = ''08012345678'',
          speciality = ''Residential''\<rparr>,
        \<lparr>name = ''GreenTech Solar'', rating = 4.2, phone = ''08087654321'',
          speciality = ''Commercial''\<rparr>,
        \<lparr>name = ''PowerGen Solutions'', rating = 4.7, phone = ''08011223344'',
          speciality = ''Hybrid Systems''\<rparr>]),
     (''Abuja'',
       [\<lparr>name = ''Capital Solar'', rating = 4.6, phone = ''08055667788'',
          speciality = ''Residential''\<rparr>,
        \<lparr>name = ''Federal Solar Co.'', rating = 4.3, phone = ''08099887766'',
          speciality = ''Government Projects''\<rparr>,
        \<lparr>name = ''Sunrise Energy'', rating = 4.4, phone = ''08033445566'',
          speciality = ''Off-grid Systems''\<rparr>]),
     (''Kano'',
       [\<lparr>name = ''Northern Solar'', rating = 4.1, phone = ''08077889900'',
          speciality = ''Agricultural''\<rparr>,
        \<lparr>name = ''Sahel Power'', rating = 4.5, phone = ''08044556677'',
          speciality = ''Residential''\<rparr>])]"

subsection \<open>calculate_daily_consumption\<close>

text \<open>
  The loop over \<open>appliances_data.items()\<close>, with the two running totals as the
  accumulator.
\<close>

fun consumption_loop ::
  "(string \<times> appliance) list \<Rightarrow> real \<times> real \<Rightarrow> real \<times> real" where
  "consumption_loop [] (total_watts, total_kwh) = (total_watts, total_kwh)"
| "consumption_loop ((appliance, data) # rest) (total_watts, total_kwh) =
     (if quantity data > 0 then
        (let watts = power data * of_int (quantity data);
             kwh = (watts * hours data) / 1000
         in consumption_loop rest (total_watts + watts, total_kwh + kwh))
      else consumption_loop rest (total_watts, total_kwh))"

definition calculate_daily_consumption :: "(string \<times> appliance) list \<Rightarrow> real \<times> real" where
  "calculate_daily_consumption appliances_data = consumption_loop appliances_data (0, 0)"

subsection \<open>calculate_solar_system\<close>

definition calculate_solar_system ::
  "real \<Rightarrow> string \<Rightarrow> int \<Rightarrow> py_error + (real \<times> real \<times> real)" where
  "calculate_solar_system daily_kwh location autonomy_days =
     (let solar_irradiance = dict_get NIGERIAN_CITIES location 5.0;
          system_efficiency = 0.85
      in case py_truediv daily_kwh (solar_irradiance * system_efficiency) of
           Inl e \<Rightarrow> Inl e
         | Inr required_solar_kwp \<Rightarrow>
             (let battery_kwh = daily_kwh * of_int autonomy_days
              in Inr (required_solar_kwp, battery_kwh, solar_irradiance)))"

subsection \<open>recommend_panels\<close>





subsection \<open>Load optimization: the scenario loop and the recommended configuration\<close>

definition scenarios :: "(string \<times> string list) list" where
  "scenarios =
    [(''Essential Only (High Priority)'', [''High'']),
     (''Essential + Important (High + Medium)'', [''High'', ''Medium'']),
     (''All Appliances'', [''High'', ''Medium'', ''Low''])]"

definition scenario_appliances ::
  "(string \<times> appliance) list \<Rightarrow> string list \<Rightarrow> (string \<times> appliance) list" where
  "scenario_appliances appliances_data priorities =
     filter (\<lambda>(appliance, data).
        priority data \<in> set priorities \<and> quantity data > 0 \<and> priority data \<noteq> ''Remove'')
       appliances_data"









subsection \<open>Vendor lookup\<close>

definition city_vendors :: "string \<Rightarrow> vendor list" where
  "city_vendors selected_city = dict_get VENDORS selected_city []"

text \<open>The loop over \<open>city_vendors\<close>: the vendors for which an expander is shown.\<close>

fun shown_vendors :: "string \<Rightarrow> vendor list \<Rightarrow> vendor list" where
  "shown_vendors service_type [] = []"
| "shown_vendors service_type (vendor # rest) =
     (if service_type = ''All'' \<or> speciality vendor = service_type
      then vendor # shown_vendors service_type rest
      else shown_vendors service_type rest)"

definition vendor_lookup :: "string \<Rightarrow> string \<Rightarrow> vendor list" where
  "vendor_lookup selected_city service_type =
     shown_vendors service_type (city_vendors selected_city)"

subsection \<open>Example working sets\<close>

text \<open>
  A household with one entry of each priority, and a working set in which the Medium
  entry adds less than 0.005 kWh to the High one.
\<close>

definition sample_household :: "(string \<times> appliance) list" where
  "sample_household =
     [(''Laptop'', \<lparr>power = 65, hours = 8, quantity = 1, priority = ''High''\<rparr>),
      (''LED TV (32 inch)'', \<lparr>power = 60, hours = 6, quantity = 2, priority = ''Medium''\<rparr>),
      (''Iron'', \<lparr>power = 1200, hours = 1, quantity = 1, priority = ''Low''\<rparr>)]"


section \<open>Properties\<close>

subsection \<open>Consumption\<close>

lemma consumption_loop_sums:
  "consumption_loop xs (w, k) =
     (w + (\<Sum>(n, d) \<leftarrow> filter (\<lambda>(n, d). quantity d > 0) xs.
             power d * of_int (quantity d)),
      k + (\<Sum>(n, d) \<leftarrow> filter (\<lambda>(n, d). quantity d > 0) xs.
             power d * of_int (quantity d) * hours d / 1000))"
proof (induction xs arbitrary: w k)
  case Nil
  show ?case by simp
next
  case (Cons e rest)
  obtain n d where e: "e = (n, d)" by (cases e)
  show ?case
    by (simp add: e Cons.IH Let_def add.assoc)
qed

text \<open>
  C1. calculate_daily_consumption returns the sum of power times quantity, and the sum
  of power times quantity times hours over 1000, both taken over exactly the entries
  whose quantity is positive; an entry of quantity 0 adds nothing to either total; and
  the single entry power 150, hours 24, quantity 1 gives 150 W and 3.6 kWh.
\<close>

theorem calculate_daily_consumption_sums:
  "calculate_daily_consumption xs =
     ((\<Sum>(n, d) \<leftarrow> filter (\<lambda>(n, d). quantity d > 0) xs. power d * of_int (quantity d)),
      (\<Sum>(n, d) \<leftarrow> filter (\<lambda>(n, d). quantity d > 0) xs.
          power d * of_int (quantity d) * hours d / 1000))
   \<and> calculate_daily_consumption
        (xs @ [(n0, \<lparr>power = p0, hours = h0, quantity = 0, priority = pr0\<rparr>)] @ ys)
      = calculate_daily_consumption (xs @ ys)
   \<and> calculate_daily_consumption
        [(n1, \<lparr>power = 150, hours = 24, quantity = 1, priority = pr1\<rparr>)] = (150, 3.6)"
  by (simp add: calculate_daily_consumption_def consumption_loop_sums)

theorem calculate_daily_consumption_sums_witness:
  "calculate_daily_consumption
     [(''Washing Machine'', \<lparr>power = 500, hours = 1, quantity = 1, priority = ''Medium''\<rparr>),
      (''Iron'', \<lparr>power = 1200, hours = 1, quantity = 0, priority = ''Low''\<rparr>),
      (''Water Pump'', \<lparr>power = 750, hours = 2, quantity = 1, priority = ''High''\<rparr>)]
   = (1250, 2)"
  using calculate_daily_consumption_sums
    [of "[(''Washing Machine'',
            \<lparr>power = 500, hours = 1, quantity = 1, priority = ''Medium''\<rparr>),
          (''Iron'', \<lparr>power = 1200, hours = 1, quantity = 0, priority = ''Low''\<rparr>),
          (''Water Pump'', \<lparr>power = 750, hours = 2, quantity = 1, priority = ''High''\<rparr>)]"]
  by simp

subsection \<open>Solar sizing\<close>

lemma dict_get_cases:
  "dict_get d k dflt = dflt \<or> (k, dict_get d k dflt) \<in> set d"
  by (auto simp: dict_get_def dest: map_of_SomeD split: option.splits)

lemma dict_get_absent:
  "k \<notin> set (map fst d) \<Longrightarrow> dict_get d k dflt = dflt"
  by (simp add: dict_get_def map_of_eq_None_iff [THEN iffD2])

lemma irradiance_bounds:
  "4.2 \<le> dict_get NIGERIAN_CITIES location 5.0 \<and> dict_get NIGERIAN_CITIES location 5.0 \<le> 6.0"
  by (simp add: dict_get_def NIGERIAN_CITIES_def)

lemma calculate_solar_system_value:
  "calculate_solar_system daily_kwh location autonomy_days =
     Inr (daily_kwh / (dict_get NIGERIAN_CITIES location 5.0 * 0.85),
          daily_kwh * of_int autonomy_days,
          dict_get NIGERIAN_CITIES location 5.0)"
proof -
  have "dict_get NIGERIAN_CITIES location 5.0 * (0.85::real) \<noteq> 0"
    using irradiance_bounds [of location] by simp
  then show ?thesis
    by (simp add: calculate_solar_system_def py_truediv_def Let_def)
qed



text \<open>
  C8. For a location that is not a key of NIGERIAN_CITIES, calculate_solar_system does not
  fail: it computes with the default irradiance 5.0 and returns 5.0 as the irradiance
  used.
\<close>

theorem unknown_location_default:
  "location \<notin> set (map fst NIGERIAN_CITIES) \<Longrightarrow>
   calculate_solar_system daily_kwh location autonomy_days
     = Inr (daily_kwh / (5.0 * 0.85), daily_kwh * of_int autonomy_days, 5.0)"
  by (simp add: calculate_solar_system_value dict_get_absent)

theorem unknown_location_default_witness:
  "''Enugu'' \<notin> set (map fst NIGERIAN_CITIES)
   \<and> calculate_solar_system 10 ''Enugu'' 1 = Inr (10 / (5.0 * 0.85), 10, 5.0)"
proof -
  have h: "''Enugu'' \<notin> set (map fst NIGERIAN_CITIES)"
    by (simp add: NIGERIAN_CITIES_def)
  show ?thesis using h unknown_location_default [OF h, of 10 1] by simp
qed

text \<open>
  C10. For every location the irradiance used by calculate_solar_system is the default 5.0
  or the value the city table holds for it; the table's values all lie between 4.2 and
  6.0, so the irradiance used is strictly positive, the divisor irradiance * 0.85 is not
  zero, and the division never raises ZeroDivisionError.
\<close>

theorem irradiance_used_positive:
  "\<exists>required_kwp battery_kwh irradiance_used.
     calculate_solar_system daily_kwh location autonomy_days
       = Inr (required_kwp, battery_kwh, irradiance_used)
   \<and> (irradiance_used = 5.0 \<or> (location, irradiance_used) \<in> set NIGERIAN_CITIES)
   \<and> 4.2 \<le> irradiance_used \<and> irradiance_used \<le> 6.0
   \<and> 0 < irradiance_used
   \<and> irradiance_used * 0.85 \<noteq> 0
   \<and> py_truediv daily_kwh (irradiance_used * 0.85) \<noteq> Inl ZeroDivisionError
   \<and> list_all (\<lambda>(city, v). 4.2 \<le> v \<and> v \<le> 6.0) NIGERIAN_CITIES"
proof -
  let ?irr = "dict_get NIGERIAN_CITIES location (5.0::real)"
  have b: "4.2 \<le> ?irr \<and> ?irr \<le> 6.0" by (rule irradiance_bounds)
  then have pos: "0 < ?irr" by simp
  have src: "?irr = 5.0 \<or> (location, ?irr) \<in> set NIGERIAN_CITIES"
    by (rule dict_get_cases)
  have tbl: "list_all (\<lambda>(city, v). 4.2 \<le> v \<and> v \<le> (6.0::real)) NIGERIAN_CITIES"
    by (simp add: NIGERIAN_CITIES_def)
  have nz: "?irr * 0.85 \<noteq> 0" using pos by simp
  then have noerr: "py_truediv daily_kwh (?irr * 0.85) \<noteq> Inl ZeroDivisionError"
    by (simp add: py_truediv_def)
  show ?thesis
    using calculate_solar_system_value [of daily_kwh location autonomy_days] b pos src tbl nz noerr
    by blast
qed

theorem irradiance_used_positive_witness:
  "calculate_solar_system 0 ''Port Harcourt'' 2 = Inr (0, 0, 4.2)"
  using irradiance_used_positive [of 0 "''Port Harcourt''" 2]
  by (simp add: calculate_solar_system_value dict_get_def NIGERIAN_CITIES_def)

subsection \<open>Panel recommendation\<close>







subsection \<open>Scenario ordering\<close>

lemma calculate_daily_consumption_kwh:
  "snd (calculate_daily_consumption xs) =
     (\<Sum>(n, d) \<leftarrow> filter (\<lambda>(n, d). quantity d > 0) xs.
          power d * of_int (quantity d) * hours d / 1000)"
  by (simp add: calculate_daily_consumption_def consumption_loop_sums)

lemma sum_list_filter_mono:
  fixes f :: "'a \<Rightarrow> real"
  assumes "\<And>x. x \<in> set xs \<Longrightarrow> 0 \<le> f x"
    and "\<And>x. x \<in> set xs \<Longrightarrow> P x \<Longrightarrow> Q x"
  shows "sum_list (map f (filter P xs)) \<le> sum_list (map f (filter Q xs))"
  using assms
proof (induction xs)
  case Nil
  show ?case by simp
next
  case (Cons x xs)
  have ih: "sum_list (map f (filter P xs)) \<le> sum_list (map f (filter Q xs))"
    using Cons by simp
  have fx: "0 \<le> f x" using Cons.prems(1) by simp
  have pq: "P x \<Longrightarrow> Q x" using Cons.prems(2) by simp
  show ?case using ih fx pq by auto
qed

lemma scenario_kwh_filter:
  "snd (calculate_daily_consumption (scenario_appliances xs ps)) =
     sum_list (map (\<lambda>(n, d). power d * of_int (quantity d) * hours d / 1000)
       (filter (\<lambda>(n, d). priority d \<in> set ps \<and> quantity d > 0 \<and> priority d \<noteq> ''Remove'') xs))"
proof -
  have "filter (\<lambda>(n, d). quantity d > 0) (scenario_appliances xs ps) = scenario_appliances xs ps"
    unfolding scenario_appliances_def by (induction xs) auto
  then show ?thesis
    by (simp add: calculate_daily_consumption_kwh scenario_appliances_def)
qed

lemma scenario_kwh_mono:
  assumes nonneg: "\<forall>(n, d) \<in> set xs. 0 \<le> power d \<and> 0 \<le> hours d \<and> 0 \<le> quantity d"
    and sub: "set ps \<subseteq> set qs"
  shows "snd (calculate_daily_consumption (scenario_appliances xs ps))
           \<le> snd (calculate_daily_consumption (scenario_appliances xs qs))"
  unfolding scenario_kwh_filter
proof (rule sum_list_filter_mono)
  fix x assume x: "x \<in> set xs"
  obtain n d where xd: "x = (n, d)" by (cases x)
  have "0 \<le> power d" "0 \<le> hours d" "0 \<le> quantity d"
    using nonneg x xd by auto
  then show "0 \<le> (case x of (n, d) \<Rightarrow> power d * of_int (quantity d) * hours d / 1000)"
    by (simp add: xd)
next
  fix x assume "x \<in> set xs"
    and "case x of (n, d) \<Rightarrow> priority d \<in> set ps \<and> quantity d > 0 \<and> priority d \<noteq> ''Remove''"
  then show "case x of (n, d) \<Rightarrow> priority d \<in> set qs \<and> quantity d > 0 \<and> priority d \<noteq> ''Remove''"
    using sub by auto
qed

text \<open>
  C7. For an appliance mapping whose power, hours and quantity fields are all
  non-negative, the daily kWh of the three scenarios are ordered: the total of the
  High entries is at most the total of the High and Medium entries, which is at most the
  total of the High, Medium and Low entries; these are the three priority lists of
  \<open>scenarios\<close>, in its order.
\<close>

theorem scenario_kwh_ordering:
  "\<forall>(n, d) \<in> set appliances_data. 0 \<le> power d \<and> 0 \<le> hours d \<and> 0 \<le> quantity d \<Longrightarrow>
     snd (calculate_daily_consumption (scenario_appliances appliances_data [''High'']))
       \<le> snd (calculate_daily_consumption
                (scenario_appliances appliances_data [''High'', ''Medium'']))
   \<and> snd (calculate_daily_consumption
            (scenario_appliances appliances_data [''High'', ''Medium'']))
       \<le> snd (calculate_daily_consumption
                (scenario_appliances appliances_data [''High'', ''Medium'', ''Low'']))
   \<and> map snd scenarios = [[''High''], [''High'', ''Medium''], [''High'', ''Medium'', ''Low'']]"
proof -
  assume a: "\<forall>(n, d) \<in> set appliances_data. 0 \<le> power d \<and> 0 \<le> hours d \<and> 0 \<le> quantity d"
  have s1: "set [''High''] \<subseteq> set [''High'', ''Medium'']" by simp
  have s2: "set [''High'', ''Medium''] \<subseteq> set [''High'', ''Medium'', ''Low'']" by simp
  show ?thesis
    using scenario_kwh_mono [OF a s1] scenario_kwh_mono [OF a s2]
    by (simp add: scenarios_def)
qed

theorem scenario_kwh_ordering_witness:
  "list_all (\<lambda>(n, d). 0 \<le> power d \<and> 0 \<le> hours d \<and> 0 \<le> quantity d) sample_household
   \<and> snd (calculate_daily_consumption (scenario_appliances sample_household [''High'']))
       \<le> snd (calculate_daily_consumption
                (scenario_appliances sample_household [''High'', ''Medium'']))
   \<and> snd (calculate_daily_consumption
            (scenario_appliances sample_household [''High'', ''Medium'']))
       \<le> snd (calculate_daily_consumption
                (scenario_appliances sample_household [''High'', ''Medium'', ''Low'']))"
proof -
  have h: "\<forall>(n, d) \<in> set sample_household. 0 \<le> power d \<and> 0 \<le> hours d \<and> 0 \<le> quantity d"
    by (simp add: sample_household_def)
  have l: "list_all (\<lambda>(n, d). 0 \<le> power d \<and> 0 \<le> hours d \<and> 0 \<le> quantity d)
             sample_household"
    by (simp add: sample_household_def)
  show ?thesis
    using l scenario_kwh_ordering [OF h] by blast
qed

subsection \<open>Vendor lookup\<close>

lemma shown_vendors_filter:
  "shown_vendors service_type vs =
     filter (\<lambda>v. service_type = ''All'' \<or> speciality v = service_type) vs"
  by (induction vs) simp_all

text \<open>
  C9. The vendor lookup returns the stored vendors of the city whose speciality equals
  the filter, in table order, and all of them for the filter All; a city that is not a
  key of VENDORS, and a city whose list is empty, give the empty list, never an error.
\<close>

theorem vendor_lookup_filter:
  "vendor_lookup selected_city service_type =
     filter (\<lambda>v. service_type = ''All'' \<or> speciality v = service_type)
       (case map_of VENDORS selected_city of None \<Rightarrow> [] | Some vs \<Rightarrow> vs)
   \<and> vendor_lookup selected_city ''All'' =
       (case map_of VENDORS selected_city of None \<Rightarrow> [] | Some vs \<Rightarrow> vs)
   \<and> (selected_city \<notin> set (map fst VENDORS) \<longrightarrow> vendor_lookup selected_city service_type = [])
   \<and> (city_vendors selected_city = [] \<longrightarrow> vendor_lookup selected_city service_type = [])
   \<and> shown_vendors service_type [] = []"
proof -
  have "selected_city \<notin> set (map fst VENDORS) \<Longrightarrow> city_vendors selected_city = []"
    by (simp add: city_vendors_def dict_get_absent)
  then show ?thesis
    by (auto simp: vendor_lookup_def shown_vendors_filter city_vendors_def dict_get_def
             split: option.splits)
qed

theorem vendor_lookup_filter_witness:
  "''Jos'' \<notin> set (map fst VENDORS) \<and> vendor_lookup ''Jos'' ''Residential'' = []
   \<and> vendor_lookup ''Kano'' ''Residential'' =
       [\<lparr>name = ''Sahel Power'', rating = 4.5, phone = ''08044556677'',
          speciality = ''Residential''\<rparr>]"
  using vendor_lookup_filter [of "''Jos''" "''Residential''"]
    vendor_lookup_filter [of "''Kano''" "''Residential''"]
  by (simp add: VENDORS_def)

subsection \<open>Scenario costs and the recommended configuration\<close>
















subsection \<open>Input validation\<close>




end
